theory Spec2Isabelle
  imports Complex_Main "HOL-Library.Log_Nat"
begin

section \<open>JavaScript primitives used by the server\<close>

text \<open>
  The server is a TypeScript file with two Express handlers, \<^verbatim>\<open>/qrcode\<close> and
  \<^verbatim>\<open>/\<close>, and the helper \<^verbatim>\<open>generateQrWithLogo\<close>. The repository holds it twice:
  the file that serves \<^verbatim>\<open>main.html\<close>, which is modelled first, and a file that serves
  \<^verbatim>\<open>choose.html\<close> and differs in the landing page handler only. Strings are modelled
  as HOL strings holding the UTF-8 bytes of a well-formed JavaScript string; every string
  operation the handlers use (emptiness, splitting at the space character, a
  one-character prefix test, replacing a fixed ASCII word) gives the same answer on bytes
  as on UTF-16 code units. Query parameters are taken as strings, as the source's
  \<^verbatim>\<open>as string\<close> casts declare.
\<close>

text \<open>\<^verbatim>\<open>s.split(" ")\<close>: the pieces between single space characters, empty pieces kept.\<close>

fun split_on :: "char \<Rightarrow> string \<Rightarrow> string list" where
  "split_on c [] = [[]]"
| "split_on c (x # xs) =
     (if x = c then [] # split_on c xs
      else (case split_on c xs of w # ws \<Rightarrow> (x # w) # ws | [] \<Rightarrow> [[x]]))"

definition split_space :: "string \<Rightarrow> string list" where
  "split_space s = split_on (CHR '' '') s"

text \<open>\<^verbatim>\<open>s.startsWith(p)\<close>.\<close>

definition startsWith :: "string \<Rightarrow> string \<Rightarrow> bool" where
  "startsWith s p \<longleftrightarrow> take (length p) s = p"

text \<open>
  \<^verbatim>\<open>s.toUpperCase()\<close> on ASCII letters, for the evaluation of the handlers at ASCII
  identifiers. JavaScript maps every cased letter, so the landing handler below takes the
  upper-casing function as a parameter, and what is proved of it for every identifier is
  proved for every such function.
\<close>

definition upper_char :: "char \<Rightarrow> char" where
  "upper_char c =
     (let n = (of_char c :: nat) in if 97 \<le> n \<and> n \<le> 122 then char_of (n - 32) else c)"

definition toUpperCase :: "string \<Rightarrow> string" where
  "toUpperCase s = map upper_char s"

definition lower_char :: "char \<Rightarrow> char" where
  "lower_char c =
     (let n = (of_char c :: nat) in if 65 \<le> n \<and> n \<le> 90 then char_of (n + 32) else c)"

text \<open>
  \<^verbatim>\<open>s.replace(pat, rep)\<close> for a string pattern: the first occurrence only. The one
  replacement text the server passes here is the constant \<^verbatim>\<open>"Rechercher"\<close>, which has
  no \<^verbatim>\<open>$\<close> pattern.
\<close>

fun replace_first :: "string \<Rightarrow> string \<Rightarrow> string \<Rightarrow> string" where
  "replace_first pat rep [] = (if pat = [] then rep else [])"
| "replace_first pat rep (c # cs) =
     (if take (length pat) (c # cs) = pat then rep @ drop (length pat) (c # cs)
      else c # replace_first pat rep cs)"

text \<open>\<^verbatim>\<open>Boolean(s)\<close> for a string: true exactly for a non-empty one.\<close>

definition Boolean :: "string \<Rightarrow> bool" where
  "Boolean s \<longleftrightarrow> s \<noteq> []"

text \<open>Truthiness of a value that is a string, \<^verbatim>\<open>null\<close> or \<^verbatim>\<open>undefined\<close>.\<close>

definition truthy :: "string option \<Rightarrow> bool" where
  "truthy v = (case v of None \<Rightarrow> False | Some s \<Rightarrow> s \<noteq> [])"

text \<open>
  \<^verbatim>\<open>encodeURI\<close>: the bytes of every character outside the unreserved and reserved
  sets and \<^verbatim>\<open>#\<close> become \<^verbatim>\<open>%XX\<close>.
\<close>

definition uri_kept :: "char \<Rightarrow> bool" where
  "uri_kept c \<longleftrightarrow>
     c \<in> set (''ABCDEFGHIJKLMNOPQRSTUVWXYZabcdefghijklmnopqrstuvwxyz0123456789''
              @ '';/?:@&=+$,-_.!~*()#'' @ [CHR 0x27])"

definition hex_digit :: "nat \<Rightarrow> char" where
  "hex_digit n = ''0123456789ABCDEF'' ! (n mod 16)"

definition encode_char :: "char \<Rightarrow> string" where
  "encode_char c =
     (if uri_kept c then [c]
      else [CHR ''%'', hex_digit (of_char c div 16), hex_digit (of_char c mod 16)])"

definition encodeURI :: "string \<Rightarrow> string" where
  "encodeURI s = concat (map encode_char s)"

text \<open>
  \<^verbatim>\<open>parseInt(s)\<close> with no radix: leading white space, a sign, an optional
  \<^verbatim>\<open>0x\<close> prefix, then the longest run of digits; \<open>None\<close> stands for \<^verbatim>\<open>NaN\<close>.
\<close>

definition is_space :: "char \<Rightarrow> bool" where
  "is_space c \<longleftrightarrow> (of_char c :: nat) \<in> {9, 10, 11, 12, 13, 32}"

definition digit_value :: "char \<Rightarrow> nat option" where
  "digit_value c =
     (let n = (of_char c :: nat) in
      if 48 \<le> n \<and> n \<le> 57 then Some (n - 48)
      else if 97 \<le> n \<and> n \<le> 102 then Some (n - 87)
      else if 65 \<le> n \<and> n \<le> 70 then Some (n - 55)
      else None)"

fun digits_value :: "nat \<Rightarrow> nat \<Rightarrow> string \<Rightarrow> nat" where
  "digits_value r acc [] = acc"
| "digits_value r acc (c # cs) =
     (case digit_value c of
        None \<Rightarrow> acc
      | Some d \<Rightarrow> if d < r then digits_value r (acc * r + d) cs else acc)"

definition has_digit :: "nat \<Rightarrow> string \<Rightarrow> bool" where
  "has_digit r s =
     (case s of [] \<Rightarrow> False
      | c # _ \<Rightarrow> (case digit_value c of None \<Rightarrow> False | Some d \<Rightarrow> d < r))"

definition parseInt :: "string \<Rightarrow> int option" where
  "parseInt s =
     (let t = dropWhile is_space s;
          neg = startsWith t ''-'';
          u = (if startsWith t ''-'' \<or> startsWith t ''+'' then tl t else t);
          hex = startsWith u ''0x'' \<or> startsWith u ''0X'';
          r = (if hex then 16 else 10);
          v = (if hex then drop 2 u else u)
      in if has_digit r v
         then Some ((if neg then - 1 else 1) * int (digits_value r 0 v))
         else None)"

section \<open>Configuration, requests, directory\<close>

text \<open>
  The process environment, read once at start-up. \<open>APP_PORT_TEXT\<close> is
  \<^verbatim>\<open>String(appPort)\<close>.
\<close>

record config =
  isDev :: bool
  APP_PORT_TEXT :: string
  TELEGRAM_BOT_NAME :: "string option"
  WHATSAPP_BOT__PHONE_NUMBER :: "string option"
  MATRIX_BOT_USERNAME :: "string option"
  TCHAP_BOT_USERNAME :: "string option"

definition HOME_WEBSITE_URL :: string where
  "HOME_WEBSITE_URL = ''joel-officiel.fr''"

definition APP_DOMAIN :: "config \<Rightarrow> string" where
  "APP_DOMAIN cfg = (if isDev cfg then ''localhost'' else ''links.joel-officiel.fr'')"

definition APP_URL :: "config \<Rightarrow> string" where
  "APP_URL cfg = ''http'' @ (if isDev cfg then '''' else ''s'') @ ''://'' @ APP_DOMAIN cfg"

definition APP_URL_WITH_PORT :: "config \<Rightarrow> string" where
  "APP_URL_WITH_PORT cfg = APP_URL cfg @ '':'' @ APP_PORT_TEXT cfg"

definition APP_URL_WITH_PORT_QR :: "config \<Rightarrow> string" where
  "APP_URL_WITH_PORT_QR cfg = APP_URL_WITH_PORT cfg @ ''/qrcode''"

text \<open>A link base is set when the variable is truthy; the block is shown when it is defined.\<close>

definition link_base :: "string \<Rightarrow> string \<Rightarrow> string option \<Rightarrow> string option" where
  "link_base pre post v =
     (case v of None \<Rightarrow> None | Some s \<Rightarrow> if s \<noteq> [] then Some (pre @ s @ post) else None)"

definition whatsappLinkBase :: "config \<Rightarrow> string option" where
  "whatsappLinkBase cfg =
     link_base ''https://wa.me/'' ''?text=Bonjour JOEL!'' (WHATSAPP_BOT__PHONE_NUMBER cfg)"

definition telegramLinkBase :: "config \<Rightarrow> string option" where
  "telegramLinkBase cfg =
     link_base ''https://t.me/'' ''?text=Bonjour JOEL!'' (TELEGRAM_BOT_NAME cfg)"

definition matrixLinkBase :: "config \<Rightarrow> string option" where
  "matrixLinkBase cfg = link_base ''https://matrix.to/#/@'' '''' (MATRIX_BOT_USERNAME cfg)"

definition tchapLinkBase :: "config \<Rightarrow> string option" where
  "tchapLinkBase cfg = link_base ''https://www.tchap.gouv.fr/#/@'' '''' (TCHAP_BOT_USERNAME cfg)"

definition hasWhatsapp :: "config \<Rightarrow> bool" where
  "hasWhatsapp cfg \<longleftrightarrow> WHATSAPP_BOT__PHONE_NUMBER cfg \<noteq> None"

definition hasTelegram :: "config \<Rightarrow> bool" where
  "hasTelegram cfg \<longleftrightarrow> TELEGRAM_BOT_NAME cfg \<noteq> None"

definition hasMatrix :: "config \<Rightarrow> bool" where
  "hasMatrix cfg \<longleftrightarrow> MATRIX_BOT_USERNAME cfg \<noteq> None"

definition hasTchap :: "config \<Rightarrow> bool" where
  "hasTchap cfg \<longleftrightarrow> TCHAP_BOT_USERNAME cfg \<noteq> None"

text \<open>The query string of a request and its user agent.\<close>

record request =
  q_name :: "string option"
  q_organisation_id :: "string option"
  q_function_tag :: "string option"
  q_verify :: "string option"
  q_size :: "string option"
  q_frame :: "string option"
  user_agent :: "string option"

text \<open>
  The directory client (\<^verbatim>\<open>JORFSearch.utils.ts\<close>) is not part of the sources: its three
  lookups are parameters. A lookup answers a list of matches, or \<open>None\<close> when the call
  throws, which the handler's \<^verbatim>\<open>catch\<close> turns into a 500 response.
\<close>

record person =
  prenom :: string
  nom :: string

record organisation =
  org_id :: string
  org_name :: string

record directory =
  callJORFSearchPeople :: "string \<Rightarrow> person list option"
  callJORFSearchOrganisationByWikidataId :: "string \<Rightarrow> organisation list option"
  callJORFSearchTag :: "string \<Rightarrow> string list option"

text \<open>What a handler does besides answering: directory calls and analytics events, in order.\<close>

datatype effect =
    SearchPeople string
  | SearchOrganisation string
  | SearchTag string
  | Umami string

datatype FollowType = people | function_tag | organisation

section \<open>Numbers\<close>

text \<open>
  A finite double is a pair \<open>(m, e)\<close> standing for \<open>m * 2 ^ e\<close>. The product of an
  integer below \<open>2 ^ 53\<close> in size and a double is the exact product rounded to 53
  significant bits, ties to even (with the coarser grid of the subnormal range; no
  product here comes near the overflow threshold). \<^verbatim>\<open>Math.floor\<close> is exact on the
  rounded value, and so is \<^verbatim>\<open>Math.round\<close>, which rounds a half up. Pixel counts are
  far below \<open>2 ^ 53\<close>, so sums and differences of them and their halves are exact.
\<close>

type_synonym dbl = "int \<times> int"

definition round_even :: "int \<Rightarrow> nat \<Rightarrow> int" where
  "round_even n s =
     (let q = n div 2 ^ s; r = n mod 2 ^ s
      in if 2 * r > 2 ^ s \<or> (2 * r = 2 ^ s \<and> odd q) then q + 1 else q)"

definition dbl_mul_int :: "int \<Rightarrow> dbl \<Rightarrow> dbl" where
  "dbl_mul_int k d =
     (let n = k * fst d; e = snd d;
          s = nat (max 0 (max (bitlen \<bar>n\<bar> - 53) (- 1074 - e)))
      in (sgn n * round_even \<bar>n\<bar> s, e + int s))"

definition dbl_half :: "int \<Rightarrow> dbl" where
  "dbl_half n = (n, - 1)"

definition Math_floor :: "dbl \<Rightarrow> int" where
  "Math_floor d =
     (if 0 \<le> snd d then fst d * 2 ^ nat (snd d) else fst d div 2 ^ nat (- snd d))"

definition Math_round :: "dbl \<Rightarrow> int" where
  "Math_round d =
     (if 0 \<le> snd d then fst d * 2 ^ nat (snd d)
      else (2 * fst d + 2 ^ nat (- snd d)) div 2 ^ (nat (- snd d) + 1))"

text \<open>The literals \<^verbatim>\<open>0.45\<close> and \<^verbatim>\<open>0.35\<close> as doubles.\<close>

definition d_0_45 :: dbl where
  "d_0_45 = (8106479329266893, - 54)"

definition d_0_35 :: dbl where
  "d_0_35 = (6305039478318694, - 54)"

section \<open>Responses\<close>

text \<open>
  An image is the expression handed to the image libraries: the QR bitmap requested from
  \<^verbatim>\<open>QRCode.toBuffer\<close> (text, width, margin, dark, light; error correction \<^verbatim>\<open>H\<close>),
  the resized logo and the frame file with their pixel sizes, the SVG text layer (width,
  height, whether the text is hidden, the text), and \<^verbatim>\<open>composite\<close> of a base with
  a list of overlays, each with its left and top offset, painted in list order.
\<close>

datatype image =
    QRCodeBuffer string int int string string
  | LogoBuffer int int
  | FrameFile int int
  | TextSvg int int bool string
  | Composite image "(image \<times> int \<times> int) list"

text \<open>
  The landing page is the template \<^verbatim>\<open>main.html\<close> (not part of the sources) after the
  handler's substitutions; the model keeps the substituted values: the \<^verbatim>\<open>src\<close> of the
  QR image when that block is shown, the label, the base URL, the name put into the title
  (\<open>None\<close> for the default title), which messenger blocks are shown, and the links.
\<close>

record page =
  qrcode_src :: "string option"
  follow_label :: string
  base_url :: string
  title_name :: "string option"
  whatsapp_block :: bool
  telegram_block :: bool
  matrix_block :: bool
  tchap_block :: bool
  whatsapp_link :: "string option"
  telegram_link :: "string option"
  matrix_link :: "string option"
  tchap_link :: "string option"

datatype response =
    Json nat string
  | Redirect string
  | Html page
  | Png image

text \<open>The error responses, under the names of the specification's taxonomy.\<close>

definition InvalidPersonName :: response where
  "InvalidPersonName =
     Json 400 ''Name parameter must be composed two words minimum: firstname lastname.''"

definition AmbiguousTarget :: response where
  "AmbiguousTarget = Json 400 ''Parameters people, function_tag and organisations are exclusive.''"

definition VerificationRequired :: response where
  "VerificationRequired =
     Json 400 ''Verification is mandatory when fetching organisation with WikidataId.''"

definition PersonNotFound :: "string \<Rightarrow> response" where
  "PersonNotFound n =
     Json 400 (''No result found on JORFSearch for person '' @ [CHR 0x22] @ n @ [CHR 0x22] @ ''.'')"

definition OrganisationNotFound :: "string \<Rightarrow> response" where
  "OrganisationNotFound i =
     Json 400 (''No result found on JORFSearch for organisation '' @ [CHR 0x22] @ i
               @ [CHR 0x22] @ ''.'')"

definition TagNotFound :: response where
  "TagNotFound = Json 400 ''No result found on JORFSearch.''"

definition AmbiguousDirectoryMatch :: response where
  "AmbiguousDirectoryMatch = Json 400 ''Too many results found on JORFSearch.''"

definition SizeFrameConflict :: response where
  "SizeFrameConflict = Json 400 ''Cannot use fixed size and frame at the same tile.''"

definition QrUrlNotInitialized :: response where
  "QrUrlNotInitialized = Json 400 ''qr_url not initialized''"

definition FollowLabelNotFound :: response where
  "FollowLabelNotFound = Json 400 ''Follow label not found.''"

definition PageGenerationFailed :: response where
  "PageGenerationFailed = Json 500 ''Page generation failed.''"

definition QrGenerationFailed :: response where
  "QrGenerationFailed = Json 500 ''QR code generation failed.''"

section \<open>The landing page handler\<close>

text \<open>
  \<^verbatim>\<open>app.get("/")\<close>. The handler's local variables are a record; each block of the
  source either answers at once (\<open>Inl\<close>, with the effects so far) or passes the updated
  variables on. The organisation block takes the function \<open>up\<close> that stands for
  \<^verbatim>\<open>toUpperCase\<close>.
\<close>

record lstate =
  followType :: "FollowType option"
  followArg :: "string option"
  followLabel :: "string option"
  qr_url :: "string option"
  trace :: "effect list"

definition verifyOnJORFSearch :: "request \<Rightarrow> bool" where
  "verifyOnJORFSearch req = (case q_verify req of None \<Rightarrow> True | Some v \<Rightarrow> Boolean v)"

definition landing_name ::
  "config \<Rightarrow> directory \<Rightarrow> request \<Rightarrow> lstate \<Rightarrow> (response \<times> effect list) + lstate" where
  "landing_name cfg dir req st =
     (case q_name req of
        None \<Rightarrow> Inr st
      | Some n \<Rightarrow>
          if length (split_space n) < 2 then Inl (InvalidPersonName, trace st)
          else if verifyOnJORFSearch req then
            (case callJORFSearchPeople dir n of
               None \<Rightarrow> Inl (PageGenerationFailed, trace st @ [SearchPeople n])
             | Some ms \<Rightarrow>
                 if length ms = 0 then Inl (PersonNotFound n, trace st @ [SearchPeople n])
                 else
                   let a = prenom (hd ms) @ '' '' @ nom (hd ms)
                   in Inr (st\<lparr>followType := Some people, followArg := Some a,
                             followLabel := Some a,
                             qr_url := Some (APP_URL_WITH_PORT_QR cfg @ ''?name='' @ a),
                             trace := trace st @ [SearchPeople n]\<rparr>))
          else Inr (st\<lparr>followType := Some people, followArg := Some n,
                        followLabel := Some n\<rparr>))"

definition landing_organisation ::
  "(string \<Rightarrow> string) \<Rightarrow> config \<Rightarrow> directory \<Rightarrow> request \<Rightarrow> lstate \<Rightarrow>
   (response \<times> effect list) + lstate" where
  "landing_organisation up cfg dir req st =
     (case q_organisation_id req of
        None \<Rightarrow> Inr st
      | Some i \<Rightarrow>
          let arg = up i in
          if followType st \<noteq> None then Inl (AmbiguousTarget, trace st)
          else if \<not> verifyOnJORFSearch req \<and> startsWith arg ''Q''
          then Inl (VerificationRequired, trace st)
          else if verifyOnJORFSearch req then
            (case callJORFSearchOrganisationByWikidataId dir arg of
               None \<Rightarrow> Inl (PageGenerationFailed, trace st @ [SearchOrganisation arg])
             | Some ms \<Rightarrow>
                 if length ms = 0
                 then Inl (OrganisationNotFound arg, trace st @ [SearchOrganisation arg])
                 else if length ms > 1
                 then Inl (AmbiguousDirectoryMatch, trace st @ [SearchOrganisation arg])
                 else Inr (st\<lparr>followType := Some organisation,
                              followArg := Some (org_id (hd ms)),
                              followLabel := Some (org_name (hd ms)),
                              qr_url := Some (APP_URL_WITH_PORT_QR cfg @ ''?organisation=''
                                              @ org_id (hd ms)),
                              trace := trace st @ [SearchOrganisation arg]\<rparr>))
          else Inr (st\<lparr>followType := Some organisation, followArg := Some arg,
                        qr_url := Some (APP_URL_WITH_PORT_QR cfg @ ''?organisation='' @ arg)\<rparr>))"

definition landing_function_tag ::
  "config \<Rightarrow> directory \<Rightarrow> request \<Rightarrow> lstate \<Rightarrow> (response \<times> effect list) + lstate" where
  "landing_function_tag cfg dir req st =
     (case q_function_tag req of
        None \<Rightarrow> Inr st
      | Some t \<Rightarrow>
          if followType st \<noteq> None then Inl (AmbiguousTarget, trace st)
          else if verifyOnJORFSearch req then
            (case callJORFSearchTag dir t of
               None \<Rightarrow> Inl (PageGenerationFailed, trace st @ [SearchTag t])
             | Some ms \<Rightarrow>
                 if length ms = 0 then Inl (TagNotFound, trace st @ [SearchTag t])
                 else Inr (st\<lparr>followType := Some function_tag, followArg := Some t,
                              qr_url := Some (APP_URL_WITH_PORT_QR cfg @ ''?function_tag='' @ t),
                              trace := trace st @ [SearchTag t]\<rparr>))
          else Inr (st\<lparr>followType := Some function_tag, followArg := Some t,
                        qr_url := Some (APP_URL_WITH_PORT_QR cfg @ ''?function_tag='' @ t)\<rparr>))"

text \<open>The user-agent test \<^verbatim>\<open>/Android|webOS|iPhone|iPad|iPod|BlackBerry|IEMobile|Opera Mini/i\<close>.\<close>

fun contains :: "string \<Rightarrow> string \<Rightarrow> bool" where
  "contains [] p = (p = [])"
| "contains (c # cs) p = (take (length p) (c # cs) = p \<or> contains cs p)"

definition isMobile_test :: "string option \<Rightarrow> bool" where
  "isMobile_test ua =
     (let s = map lower_char (case ua of None \<Rightarrow> [] | Some u \<Rightarrow> u)
      in \<exists>p \<in> set [''android'', ''webos'', ''iphone'', ''ipad'', ''ipod'', ''blackberry'',
                    ''iemobile'', ''opera mini'']. contains s p)"

text \<open>The start command of a follow type, and the analytics event of the page.\<close>

definition start_command :: "FollowType \<Rightarrow> string \<Rightarrow> string" where
  "start_command ft arg =
     (case ft of
        people \<Rightarrow> ''Rechercher '' @ arg
      | organisation \<Rightarrow> ''SuivreO '' @ arg
      | function_tag \<Rightarrow> ''SuivreF '' @ arg)"

definition link_event :: "FollowType \<Rightarrow> string" where
  "link_event ft =
     (case ft of
        people \<Rightarrow> ''/link-people''
      | organisation \<Rightarrow> ''/link-organisation''
      | function_tag \<Rightarrow> ''/link-tag'')"

definition smoothFlowCommand :: "string \<Rightarrow> string" where
  "smoothFlowCommand startCommand = replace_first ''Suivre'' ''Rechercher'' startCommand"

definition messenger_link :: "string option \<Rightarrow> string \<Rightarrow> string option" where
  "messenger_link base cmd =
     (case base of None \<Rightarrow> None | Some b \<Rightarrow> Some (encodeURI (b @ '' '' @ cmd)))"

definition landing_render :: "config \<Rightarrow> request \<Rightarrow> lstate \<Rightarrow> response \<times> effect list" where
  "landing_render cfg req st =
     (if \<not> truthy (qr_url st) \<and> \<not> isDev cfg
      then (Redirect (encodeURI (APP_URL cfg)), trace st)
      else
        let isMobile = (if \<not> truthy (qr_url st) then True else isMobile_test (user_agent req));
            label = (if \<not> truthy (qr_url st) then Some ''Sample label'' else followLabel st);
            block = (case qr_url st of
                       None \<Rightarrow> None
                     | Some u \<Rightarrow> if isMobile \<and> u \<noteq> []
                                then Some (encodeURI (u @ ''&frame=false'')) else None)
        in case label of
             None \<Rightarrow> (FollowLabelNotFound, trace st)
           | Some l \<Rightarrow>
               (case followType st of
                  None \<Rightarrow>
                    (Redirect (encodeURI (''https://'' @ HOME_WEBSITE_URL)),
                     trace st @ [Umami ''/link-default''])
                | Some ft \<Rightarrow>
                    let arg = (case followArg st of None \<Rightarrow> [] | Some a \<Rightarrow> a);
                        cmd = smoothFlowCommand (start_command ft arg)
                    in (Html \<lparr>qrcode_src = block, follow_label = l,
                               base_url = APP_URL_WITH_PORT cfg,
                               title_name = (if truthy (followArg st) then followArg st else None),
                               whatsapp_block = hasWhatsapp cfg,
                               telegram_block = hasTelegram cfg,
                               matrix_block = hasMatrix cfg,
                               tchap_block = hasTchap cfg,
                               whatsapp_link = messenger_link (whatsappLinkBase cfg) cmd,
                               telegram_link = messenger_link (telegramLinkBase cfg) cmd,
                               matrix_link = matrixLinkBase cfg,
                               tchap_link = tchapLinkBase cfg\<rparr>,
                        trace st @ [Umami (link_event ft)])))"

definition landing_init :: lstate where
  "landing_init =
     \<lparr>followType = None, followArg = None, followLabel = None, qr_url = None, trace = []\<rparr>"

definition landing_with ::
  "(string \<Rightarrow> string) \<Rightarrow> config \<Rightarrow> directory \<Rightarrow> request \<Rightarrow> response \<times> effect list" where
  "landing_with up cfg dir req =
     (case landing_name cfg dir req landing_init of
        Inl r \<Rightarrow> r
      | Inr st1 \<Rightarrow>
          (case landing_organisation up cfg dir req st1 of
             Inl r \<Rightarrow> r
           | Inr st2 \<Rightarrow>
               (case landing_function_tag cfg dir req st2 of
                  Inl r \<Rightarrow> r
                | Inr st3 \<Rightarrow> landing_render cfg req st3)))"

text \<open>The handler with the ASCII upper-casing, for the examples.\<close>

definition landing :: "config \<Rightarrow> directory \<Rightarrow> request \<Rightarrow> response \<times> effect list" where
  "landing cfg dir req = landing_with toUpperCase cfg dir req"

section \<open>The QR image\<close>

text \<open>
  The options of \<^verbatim>\<open>sharp(...).resize\<close>: a width, a height and the fit. A request with
  one dimension and the fit \<^verbatim>\<open>inside\<close> asks for a resize that preserves the aspect
  ratio, the other dimension being left to the library.
\<close>

datatype fit = fit_cover | fit_contain | fit_fill | fit_inside | fit_outside

record resize_request =
  rq_width :: "int option"
  rq_height :: "int option"
  rq_fit :: fit

text \<open>
  What the image libraries answer is a parameter: the pixel size of the logo file after a
  resize request (\<open>None\<close> when the library rejects the request or cannot read the file),
  the metadata of the frame file (\<open>None\<close> when it cannot be read, a missing width or
  height otherwise), the pixel width of the square bitmap that \<^verbatim>\<open>QRCode.toBuffer\<close>
  produces for a text, a requested width and a margin (the library honours the requested
  width only when the symbol with its margin fits in it), and whether a buffer is produced
  for an expression (a QR text beyond the code's capacity makes the call throw).
\<close>

record imaging =
  logo_resize :: "resize_request \<Rightarrow> (int \<times> int) option"
  frame_metadata :: "(int option \<times> int option) option"
  qr_bitmap_width :: "string \<Rightarrow> int \<Rightarrow> int \<Rightarrow> int"
  renders :: "image \<Rightarrow> bool"

text \<open>
  The pixel size of an image: a composite has the size of its base. \<^verbatim>\<open>composite\<close>
  refuses an overlay that is wider or taller than its base (the call then throws),
  whatever the offsets.
\<close>

fun image_size :: "imaging \<Rightarrow> image \<Rightarrow> int \<times> int" where
  "image_size lib (QRCodeBuffer t w m d l) = (qr_bitmap_width lib t w m, qr_bitmap_width lib t w m)"
| "image_size lib (LogoBuffer w h) = (w, h)"
| "image_size lib (FrameFile w h) = (w, h)"
| "image_size lib (TextSvg w h hidden t) = (w, h)"
| "image_size lib (Composite base layers) = image_size lib base"

definition overlay_fits :: "imaging \<Rightarrow> image \<Rightarrow> image \<Rightarrow> bool" where
  "overlay_fits lib base ov \<longleftrightarrow>
     fst (image_size lib ov) \<le> fst (image_size lib base)
     \<and> snd (image_size lib ov) \<le> snd (image_size lib base)"

definition composite :: "imaging \<Rightarrow> image \<Rightarrow> (image \<times> int \<times> int) list \<Rightarrow> image option" where
  "composite lib base layers =
     (if list_all (\<lambda>layer. overlay_fits lib base (fst layer)) layers
         \<and> renders lib (Composite base layers)
      then Some (Composite base layers) else None)"

text \<open>The options of \<^verbatim>\<open>generateQrWithLogo\<close> with their defaults.\<close>

record qr_options =
  qrSize :: int
  margin :: int
  dark :: string
  light :: string
  logoScale :: dbl

definition default_options :: qr_options where
  "default_options =
     \<lparr>qrSize = 600, margin = 1, dark = ''#000000'', light = ''#ffffff'', logoScale = d_0_45\<rparr>"

definition targetLogoWidth :: "qr_options \<Rightarrow> int" where
  "targetLogoWidth opts = Math_floor (dbl_mul_int (qrSize opts) (logoScale opts))"

definition generateQrWithLogo :: "imaging \<Rightarrow> string \<Rightarrow> qr_options \<Rightarrow> image option" where
  "generateQrWithLogo lib url opts =
     (let qrBuffer = QRCodeBuffer (encodeURI url) (qrSize opts) (margin opts) (dark opts)
                       (light opts)
      in if \<not> renders lib qrBuffer then None
         else
           (case logo_resize lib \<lparr>rq_width = Some (targetLogoWidth opts), rq_height = None,
                                   rq_fit = fit_inside\<rparr> of
              None \<Rightarrow> None
            | Some (w, h) \<Rightarrow>
                let left = (qrSize opts - w) div 2;
                    top = (qrSize opts - h) div 2
                in composite lib qrBuffer [(LogoBuffer w h, left, top)]))"

section \<open>The image handler\<close>

text \<open>\<^verbatim>\<open>app.get("/qrcode")\<close>.\<close>

definition DEFAULT_QRCODE_SIZE :: int where
  "DEFAULT_QRCODE_SIZE = 500"

definition FONT_SIZE :: int where
  "FONT_SIZE = 40"

text \<open>\<^verbatim>\<open>parseInt\<close> of the size parameter, the default for \<^verbatim>\<open>NaN\<close> (also when it is absent).\<close>

definition qr_code_size :: "request \<Rightarrow> int" where
  "qr_code_size req =
     (case q_size req of
        None \<Rightarrow> DEFAULT_QRCODE_SIZE
      | Some s \<Rightarrow> (case parseInt s of None \<Rightarrow> DEFAULT_QRCODE_SIZE | Some n \<Rightarrow> n))"

definition frameEnabled :: "request \<Rightarrow> bool" where
  "frameEnabled req \<longleftrightarrow> q_frame req \<noteq> Some ''false''"

definition param :: "string option \<Rightarrow> string" where
  "param v = (case v of None \<Rightarrow> [] | Some s \<Rightarrow> s)"

text \<open>
  The three parameter blocks: the follow type and the verification flag, or the answer of
  an early return.
\<close>

definition qrcode_followType :: "request \<Rightarrow> response + (FollowType option \<times> bool)" where
  "qrcode_followType req =
     (let v0 = verifyOnJORFSearch req;
          name = param (q_name req);
          organisation_id = param (q_organisation_id req);
          function_tag' = param (q_function_tag req)
      in if length name > 0 \<and> length (split_space name) < 2 then Inl InvalidPersonName
         else
           let ft1 = (if length name > 0 then Some people else None) in
           if length organisation_id > 0 \<and> ft1 \<noteq> None then Inl AmbiguousTarget
           else
             let ft2 = (if length organisation_id > 0 then Some organisation else ft1);
                 v2 = (if length organisation_id > 0 then True else v0)
             in if length function_tag' > 0 \<and> ft2 \<noteq> None then Inl AmbiguousTarget
                else Inr (if length function_tag' > 0 then Some function_tag else ft2, v2))"

text \<open>
  The \<^verbatim>\<open>switch\<close>: the label and the URL to encode (both unset when no case sets them),
  with the directory calls made.
\<close>

definition qrcode_target ::
  "config \<Rightarrow> directory \<Rightarrow> request \<Rightarrow> FollowType option \<Rightarrow> bool \<Rightarrow>
   (response \<times> effect list) + (string option \<times> string option \<times> effect list)" where
  "qrcode_target cfg dir req ft verify =
     (let name = param (q_name req);
          organisation_id = param (q_organisation_id req);
          function_tag' = param (q_function_tag req)
      in case ft of
           None \<Rightarrow> Inr (None, None, [])
         | Some people \<Rightarrow>
             if verify then
               (case callJORFSearchPeople dir name of
                  None \<Rightarrow> Inl (QrGenerationFailed, [SearchPeople name])
                | Some ms \<Rightarrow>
                    if length ms = 0 then Inl (PersonNotFound name, [SearchPeople name])
                    else
                      let prenomNom = prenom (hd ms) @ '' '' @ nom (hd ms)
                      in Inr (Some prenomNom,
                              Some (APP_URL_WITH_PORT cfg @ ''?name='' @ prenomNom),
                              [SearchPeople name]))
             else Inr (Some name, Some (APP_URL_WITH_PORT cfg @ ''?name='' @ name), [])
         | Some organisation \<Rightarrow>
             if \<not> verify \<and> \<not> startsWith organisation_id ''Q'' then Inl (VerificationRequired, [])
             else if verify then
               (case callJORFSearchOrganisationByWikidataId dir organisation_id of
                  None \<Rightarrow> Inl (QrGenerationFailed, [SearchOrganisation organisation_id])
                | Some ms \<Rightarrow>
                    if length ms = 0
                    then Inl (OrganisationNotFound organisation_id,
                              [SearchOrganisation organisation_id])
                    else if length ms > 1
                    then Inl (AmbiguousDirectoryMatch, [SearchOrganisation organisation_id])
                    else Inr (Some (org_name (hd ms)),
                              Some (APP_URL_WITH_PORT cfg @ ''?&organisation='' @ organisation_id),
                              [SearchOrganisation organisation_id]))
             else Inr (None, None, [])
         | Some function_tag \<Rightarrow>
             if verify then
               (case callJORFSearchTag dir function_tag' of
                  None \<Rightarrow> Inl (QrGenerationFailed, [SearchTag function_tag'])
                | Some ms \<Rightarrow>
                    if length ms = 0 then Inl (TagNotFound, [SearchTag function_tag'])
                    else Inr (Some function_tag',
                              Some (APP_URL_WITH_PORT cfg @ ''?&function_tag='' @ function_tag'),
                              [SearchTag function_tag']))
             else Inr (Some function_tag',
                       Some (APP_URL_WITH_PORT cfg @ ''?&function_tag='' @ function_tag'), []))"

definition qr_event :: "FollowType option \<Rightarrow> effect list" where
  "qr_event ft =
     (case ft of
        None \<Rightarrow> []
      | Some people \<Rightarrow> [Umami ''/qr-people'']
      | Some organisation \<Rightarrow> [Umami ''/qr-organisation'']
      | Some function_tag \<Rightarrow> [Umami ''/qr-tag''])"

text \<open>Frame mode: the QR and the text layer over the frame.\<close>

definition frame_left :: "int \<Rightarrow> int \<Rightarrow> int" where
  "frame_left frameW sz = Math_round (dbl_half (frameW - sz))"

definition frame_top :: "int \<Rightarrow> int" where
  "frame_top frameH = Math_round (dbl_mul_int frameH d_0_45)"

definition text_top :: "int \<Rightarrow> int" where
  "text_top frameH = Math_round (dbl_mul_int frameH d_0_35)"

definition textSvg :: "int \<Rightarrow> string option \<Rightarrow> image" where
  "textSvg frameW followLabel' =
     TextSvg frameW (FONT_SIZE * 3) (\<not> truthy followLabel') (param followLabel')"

definition frame_composite ::
  "imaging \<Rightarrow> request \<Rightarrow> image \<Rightarrow> string option \<Rightarrow> image option" where
  "frame_composite lib req qrBuffer followLabel' =
     (case frame_metadata lib of
        None \<Rightarrow> None
      | Some (w, h) \<Rightarrow>
          let frameW = (case w of None \<Rightarrow> 0 | Some x \<Rightarrow> x);
              frameH = (case h of None \<Rightarrow> 0 | Some x \<Rightarrow> x);
              left = frame_left frameW (qr_code_size req);
              top = frame_top frameH
          in composite lib (FrameFile frameW frameH)
               [(qrBuffer, left, top), (textSvg frameW followLabel', 0, text_top frameH)])"

definition qrcode ::
  "config \<Rightarrow> directory \<Rightarrow> imaging \<Rightarrow> request \<Rightarrow> response \<times> effect list" where
  "qrcode cfg dir lib req =
     (if q_size req \<noteq> None \<and> frameEnabled req then (SizeFrameConflict, [])
      else
        (case qrcode_followType req of
           Inl r \<Rightarrow> (r, [])
         | Inr (ft, verify) \<Rightarrow>
             (case qrcode_target cfg dir req ft verify of
                Inl r \<Rightarrow> r
              | Inr (followLabel', qr_url', tr) \<Rightarrow>
                  (case qr_url' of
                     None \<Rightarrow> (QrUrlNotInitialized, tr)
                   | Some u \<Rightarrow>
                       if u = [] then (QrUrlNotInitialized, tr)
                       else
                         (case generateQrWithLogo lib (encodeURI u) default_options of
                            None \<Rightarrow> (QrGenerationFailed, tr)
                          | Some qrBuffer \<Rightarrow>
                              if \<not> frameEnabled req then (Png qrBuffer, tr)
                              else
                                (case frame_composite lib req qrBuffer followLabel' of
                                   None \<Rightarrow> (QrGenerationFailed, tr)
                                 | Some outputBuffer \<Rightarrow>
                                     (Png outputBuffer, tr @ qr_event ft)))))))"

section \<open>The landing page handler of the second server file\<close>

text \<open>
  The repository holds a second copy of the server, serving the template
  \<^verbatim>\<open>choose.html\<close>. Its \<^verbatim>\<open>/qrcode\<close> handler and \<^verbatim>\<open>generateQrWithLogo\<close> are those
  above. Its \<^verbatim>\<open>app.get("/")\<close> has no label variable: the name and organisation blocks
  are the ones above (the label they set is never read), the tag block makes no directory
  call, a missing QR URL is answered with status 400, and the page always holds the QR
  image.
\<close>

record choose_page =
  c_qr_url :: string
  c_hidden_qr :: bool
  c_follow_name :: "string option"
  c_base_url :: string
  c_title_name :: "string option"
  c_whatsapp_block :: bool
  c_telegram_block :: bool
  c_matrix_block :: bool
  c_tchap_block :: bool
  c_whatsapp_link :: "string option"
  c_telegram_link :: "string option"
  c_matrix_link :: "string option"
  c_tchap_link :: "string option"

definition choose_function_tag ::
  "config \<Rightarrow> request \<Rightarrow> lstate \<Rightarrow> (response \<times> effect list) + lstate" where
  "choose_function_tag cfg req st =
     (case q_function_tag req of
        None \<Rightarrow> Inr st
      | Some t \<Rightarrow>
          if followType st \<noteq> None then Inl (AmbiguousTarget, trace st)
          else Inr (st\<lparr>followType := Some function_tag, followArg := Some t,
                        qr_url := Some (APP_URL_WITH_PORT_QR cfg @ ''?function_tag='' @ t)\<rparr>))"

definition choose_render ::
  "config \<Rightarrow> request \<Rightarrow> lstate \<Rightarrow> (response \<times> effect list) + (choose_page \<times> effect list)" where
  "choose_render cfg req st =
     (case qr_url st of
        None \<Rightarrow> Inl (QrUrlNotInitialized, trace st)
      | Some u \<Rightarrow>
          if u = [] then Inl (QrUrlNotInitialized, trace st)
          else
            (case followType st of
               None \<Rightarrow>
                 Inl (Redirect (encodeURI (''https://'' @ HOME_WEBSITE_URL)),
                      trace st @ [Umami ''/link-default''])
             | Some ft \<Rightarrow>
                 let arg = (case followArg st of None \<Rightarrow> [] | Some a \<Rightarrow> a);
                     cmd = smoothFlowCommand (start_command ft arg);
                     shown = (if truthy (followArg st) then followArg st else None)
                 in Inr (\<lparr>c_qr_url = encodeURI (u @ ''&frame=false''),
                           c_hidden_qr = isMobile_test (user_agent req),
                           c_follow_name = shown,
                           c_base_url = APP_URL_WITH_PORT cfg,
                           c_title_name = shown,
                           c_whatsapp_block = hasWhatsapp cfg,
                           c_telegram_block = hasTelegram cfg,
                           c_matrix_block = hasMatrix cfg,
                           c_tchap_block = hasTchap cfg,
                           c_whatsapp_link = messenger_link (whatsappLinkBase cfg) cmd,
                           c_telegram_link = messenger_link (telegramLinkBase cfg) cmd,
                           c_matrix_link = matrixLinkBase cfg,
                           c_tchap_link = tchapLinkBase cfg\<rparr>,
                         trace st @ [Umami (link_event ft)])))"

text \<open>The answer of this handler: an answer of the kinds above, or its own page.\<close>

definition landing_choose_with ::
  "(string \<Rightarrow> string) \<Rightarrow> config \<Rightarrow> directory \<Rightarrow> request \<Rightarrow>
   (response \<times> effect list) + (choose_page \<times> effect list)" where
  "landing_choose_with up cfg dir req =
     (case landing_name cfg dir req landing_init of
        Inl r \<Rightarrow> Inl r
      | Inr st1 \<Rightarrow>
          (case landing_organisation up cfg dir req st1 of
             Inl r \<Rightarrow> Inl r
           | Inr st2 \<Rightarrow>
               (case choose_function_tag cfg req st2 of
                  Inl r \<Rightarrow> Inl r
                | Inr st3 \<Rightarrow> choose_render cfg req st3)))"

definition landing_choose ::
  "config \<Rightarrow> directory \<Rightarrow> request \<Rightarrow> (response \<times> effect list) + (choose_page \<times> effect list)" where
  "landing_choose cfg dir req = landing_choose_with toUpperCase cfg dir req"

section \<open>Notions of the specification\<close>


fun split_when :: "(char \<Rightarrow> bool) \<Rightarrow> string \<Rightarrow> string list" where
  "split_when P [] = [[]]"
| "split_when P (x # xs) =
     (if P x then [] # split_when P xs
      else (case split_when P xs of w # ws \<Rightarrow> (x # w) # ws | [] \<Rightarrow> [[x]]))"

definition whitespace_tokens :: "string \<Rightarrow> string list" where
  "whitespace_tokens s = filter (\<lambda>w. w \<noteq> []) (split_when is_space s)"


section \<open>Example data\<close>

text \<open>
  A request with no parameter, a production and a development configuration with one
  messenger, a directory that knows one person, one organisation and one tag, and image
  libraries with a square logo that is resized to the requested width, QR bitmaps of the
  requested width and a 1000 by 1000 frame.
\<close>

definition empty_request :: request where
  "empty_request =
     \<lparr>q_name = None, q_organisation_id = None, q_function_tag = None, q_verify = None,
      q_size = None, q_frame = None, user_agent = None\<rparr>"

definition production :: config where
  "production =
     \<lparr>isDev = False, APP_PORT_TEXT = ''3000'', TELEGRAM_BOT_NAME = Some ''JOEL_bot'',
      WHATSAPP_BOT__PHONE_NUMBER = None, MATRIX_BOT_USERNAME = None,
      TCHAP_BOT_USERNAME = None\<rparr>"

definition development :: config where
  "development = production\<lparr>isDev := True\<rparr>"

definition small_directory :: directory where
  "small_directory =
     \<lparr>callJORFSearchPeople =
        (\<lambda>q. Some (if q = ''Jean Dupont'' then [\<lparr>prenom = ''Jean'', nom = ''Dupont''\<rparr>] else [])),
      callJORFSearchOrganisationByWikidataId =
        (\<lambda>q. Some (if q = ''Q12345'' \<or> q = ''q12345''
                     then [\<lparr>org_id = ''Q12345'', org_name = ''Acme Org''\<rparr>] else [])),
      callJORFSearchTag = (\<lambda>q. Some (if q = ''ministre'' then [''ministre''] else []))\<rparr>"

definition empty_directory :: directory where
  "empty_directory =
     \<lparr>callJORFSearchPeople = (\<lambda>q. Some []),
      callJORFSearchOrganisationByWikidataId = (\<lambda>q. Some []),
      callJORFSearchTag = (\<lambda>q. Some [])\<rparr>"

definition square_logo :: imaging where
  "square_logo =
     \<lparr>logo_resize =
        (\<lambda>rq. case rq_width rq of
                 None \<Rightarrow> None
               | Some w \<Rightarrow> if 0 < w then Some (w, w) else None),
      frame_metadata = Some (Some 1000, Some 1000),
      qr_bitmap_width = (\<lambda>t w m. w),
      renders = (\<lambda>i. True)\<rparr>"

text \<open>An error answer: a JSON body with status 400 or 500.\<close>

fun is_error :: "response \<Rightarrow> bool" where
  "is_error (Json c m) = (c = 400 \<or> c = 500)"
| "is_error r = False"

section \<open>Facts about the primitives\<close>

lemmas error_defs = InvalidPersonName_def AmbiguousTarget_def VerificationRequired_def
  PersonNotFound_def OrganisationNotFound_def TagNotFound_def AmbiguousDirectoryMatch_def
  SizeFrameConflict_def QrUrlNotInitialized_def FollowLabelNotFound_def
  PageGenerationFailed_def QrGenerationFailed_def

text \<open>Splitting at a character gives one piece more than the string has such characters.\<close>

lemma split_on_length: "length (split_on c s) = Suc (length (filter (\<lambda>x. x = c) s))"
  by (induction s) (auto split: list.splits)

lemma split_space_short: "length (split_space n) < 2 \<longleftrightarrow> CHR '' '' \<notin> set n"
  by (auto simp: split_space_def split_on_length filter_empty_conv)

lemma smoothFlowCommand_Suivre: "smoothFlowCommand (''Suivre'' @ s) = ''Rechercher'' @ s"
  by (simp add: smoothFlowCommand_def)

lemma encodeURI_app_url:
  "encodeURI ''https://links.joel-officiel.fr'' = ''https://links.joel-officiel.fr''"
  by code_simp

lemma encodeURI_home: "encodeURI ''https://joel-officiel.fr'' = ''https://joel-officiel.fr''"
  by code_simp








section \<open>Properties of the image handler\<close>

text \<open>An image that \<^verbatim>\<open>composite\<close> answers holds only overlays that fit in its base.\<close>

lemma composite_Some:
  assumes "composite lib base layers = Some out"
  shows "out = Composite base layers"
    and "list_all (\<lambda>layer. overlay_fits lib base (fst layer)) layers"
  using assms by (auto simp: composite_def split: if_splits)

lemma generateQrWithLogo_shape:
  assumes "generateQrWithLogo lib url opts = Some out"
  shows "\<exists>w h. logo_resize lib \<lparr>rq_width = Some (targetLogoWidth opts), rq_height = None,
                                  rq_fit = fit_inside\<rparr> = Some (w, h) \<and>
           out = Composite (QRCodeBuffer (encodeURI url) (qrSize opts) (margin opts)
                              (dark opts) (light opts))
                   [(LogoBuffer w h, (qrSize opts - w) div 2, (qrSize opts - h) div 2)] \<and>
           w \<le> qr_bitmap_width lib (encodeURI url) (qrSize opts) (margin opts) \<and>
           h \<le> qr_bitmap_width lib (encodeURI url) (qrSize opts) (margin opts)"
  using assms
  by (auto simp: generateQrWithLogo_def composite_def overlay_fits_def Let_def
      split: if_splits option.splits prod.splits)

text \<open>
  Frame mode paints, over the frame, the QR image and then the text layer, which is
  \<open>W\<close> wide and three font sizes high and is composited even when there is no label
  (its text is then hidden).
\<close>

lemma frame_composite_shape:
  assumes "frame_composite lib req qr lbl = Some out"
  shows "\<exists>W H. out = Composite (FrameFile W H)
            [(qr, frame_left W (qr_code_size req), frame_top H),
             (textSvg W lbl, 0, text_top H)]"
  using assms
  by (auto simp: frame_composite_def Let_def split: if_splits option.splits prod.splits
      dest!: composite_Some(1))

lemma qrcode_followType_Inl:
  "qrcode_followType req = Inl r \<Longrightarrow> r = InvalidPersonName \<or> r = AmbiguousTarget"
  by (auto simp: qrcode_followType_def Let_def split: if_splits)

lemma qrcode_target_Inl:
  "qrcode_target cfg dir req ft v = Inl (r, tr) \<Longrightarrow> is_error r"
  by (auto simp: qrcode_target_def Let_def error_defs
      split: if_splits option.splits FollowType.splits)

lemma qrcode_Png:
  assumes "fst (qrcode cfg dir lib req) = Png img"
  shows "\<exists>u lbl qr. generateQrWithLogo lib (encodeURI u) default_options = Some qr \<and>
           (if frameEnabled req
            then q_size req = None \<and> frame_composite lib req qr lbl = Some img
            else img = qr)"
  using assms unfolding qrcode_def
  by (auto simp: error_defs split: if_splits option.splits prod.splits sum.splits
      dest!: qrcode_followType_Inl qrcode_target_Inl)

lemma frame_left_eq: "frame_left W s = (W - s + 1) div 2"
  by (simp add: frame_left_def Math_round_def dbl_half_def)

text \<open>
  C10. Whatever the request, an image answer of \<^verbatim>\<open>/qrcode\<close> holds a QR bitmap requested
  at width 600, the default \<open>qrSize\<close> of the generator: the \<^verbatim>\<open>size\<close> parameter never
  reaches it. Without the frame the answer is that bitmap with its logo. With the frame
  no \<^verbatim>\<open>size\<close> was given, the parsed size is the default 500, and the horizontal offset
  of the bitmap on the frame is computed from 500, which lies 50 pixels to the right of the
  offset computed from the bitmap's own width.
\<close>

theorem qrcode_bitmap_size_fixed:
  assumes "fst (qrcode cfg dir lib req) = Png img"
  shows "\<exists>u w h W H t.
     (if frameEnabled req
      then q_size req = None \<and> qr_code_size req = 500 \<and>
           img = Composite (FrameFile W H)
                  [(Composite (QRCodeBuffer u 600 1 ''#000000'' ''#ffffff'')
                      [(LogoBuffer w h, (600 - w) div 2, (600 - h) div 2)],
                    frame_left W 500, frame_top H),
                   (t, 0, text_top H)] \<and>
           frame_left W 500 = frame_left W 600 + 50
      else img = Composite (QRCodeBuffer u 600 1 ''#000000'' ''#ffffff'')
                   [(LogoBuffer w h, (600 - w) div 2, (600 - h) div 2)])"
proof -
  from qrcode_Png[OF assms] obtain u lbl qr where
    g: "generateQrWithLogo lib (encodeURI u) default_options = Some qr" and
    f: "if frameEnabled req
        then q_size req = None \<and> frame_composite lib req qr lbl = Some img
        else img = qr"
    by blast
  from generateQrWithLogo_shape[OF g] obtain w h where
    qr: "qr = Composite (QRCodeBuffer (encodeURI (encodeURI u)) 600 1 ''#000000'' ''#ffffff'')
                [(LogoBuffer w h, (600 - w) div 2, (600 - h) div 2)]"
    by (auto simp: default_options_def)
  show ?thesis
  proof (cases "frameEnabled req")
    case False
    with f qr show ?thesis by auto
  next
    case True
    with f have s: "q_size req = None" and c: "frame_composite lib req qr lbl = Some img"
      by auto
    from s have z: "qr_code_size req = 500"
      by (simp add: qr_code_size_def DEFAULT_QRCODE_SIZE_def)
    from frame_composite_shape[OF c] z obtain W H where
      "img = Composite (FrameFile W H)
               [(qr, frame_left W 500, frame_top H), (textSvg W lbl, 0, text_top H)]"
      by auto
    moreover have "frame_left W 500 = frame_left W 600 + 50"
      by (simp add: frame_left_eq)
    ultimately show ?thesis using True s z qr by auto
  qed
qed

theorem qrcode_bitmap_size_fixed_witness:
  "fst (qrcode production small_directory square_logo
          (empty_request\<lparr>q_name := Some ''Jean Dupont'', q_frame := Some ''false'',
                          q_size := Some ''300''\<rparr>))
     = Png (Composite (QRCodeBuffer ''https://links.joel-officiel.fr:3000?name=Jean%2520Dupont''
                         600 1 ''#000000'' ''#ffffff'') [(LogoBuffer 270 270, 165, 165)])
   \<and> (\<exists>u w h.
         Composite (QRCodeBuffer ''https://links.joel-officiel.fr:3000?name=Jean%2520Dupont''
                      600 1 ''#000000'' ''#ffffff'') [(LogoBuffer 270 270, 165, 165)]
         = Composite (QRCodeBuffer u 600 1 ''#000000'' ''#ffffff'')
             [(LogoBuffer w h, (600 - w) div 2, (600 - h) div 2)])
   \<and> frameEnabled (empty_request\<lparr>q_name := Some ''Jean Dupont''\<rparr>)
   \<and> (\<exists>u w h W H t.
         fst (qrcode production small_directory square_logo
                (empty_request\<lparr>q_name := Some ''Jean Dupont''\<rparr>))
         = Png (Composite (FrameFile W H)
                  [(Composite (QRCodeBuffer u 600 1 ''#000000'' ''#ffffff'')
                      [(LogoBuffer w h, (600 - w) div 2, (600 - h) div 2)],
                    frame_left W 500, frame_top H),
                   (t, 0, text_top H)])
         \<and> frame_left W 500 = frame_left W 600 + 50)"
proof -
  let ?r = "empty_request\<lparr>q_name := Some ''Jean Dupont'', q_frame := Some ''false'',
                           q_size := Some ''300''\<rparr>"
  let ?f = "empty_request\<lparr>q_name := Some ''Jean Dupont''\<rparr>"
  let ?img = "Composite (FrameFile 1000 1000)
               [(Composite
                   (QRCodeBuffer ''https://links.joel-officiel.fr:3000?name=Jean%2520Dupont''
                      600 1 ''#000000'' ''#ffffff'') [(LogoBuffer 270 270, 165, 165)],
                 250, 450),
                (TextSvg 1000 120 False ''Jean Dupont'', 0, 350)]"
  have h: "fst (qrcode production small_directory square_logo ?r)
     = Png (Composite (QRCodeBuffer ''https://links.joel-officiel.fr:3000?name=Jean%2520Dupont''
                         600 1 ''#000000'' ''#ffffff'') [(LogoBuffer 270 270, 165, 165)])"
    by code_simp
  have nf: "\<not> frameEnabled ?r"
    by code_simp
  have g: "fst (qrcode production small_directory square_logo ?f) = Png ?img"
    by code_simp
  have fe: "frameEnabled ?f"
    by code_simp
  from qrcode_bitmap_size_fixed[OF h] nf have a: "\<exists>u w h.
         Composite (QRCodeBuffer ''https://links.joel-officiel.fr:3000?name=Jean%2520Dupont''
                      600 1 ''#000000'' ''#ffffff'') [(LogoBuffer 270 270, 165, 165)]
         = Composite (QRCodeBuffer u 600 1 ''#000000'' ''#ffffff'')
             [(LogoBuffer w h, (600 - w) div 2, (600 - h) div 2)]"
    by auto
  from qrcode_bitmap_size_fixed[OF g] fe have b: "\<exists>u w h W H t.
         ?img = Composite (FrameFile W H)
                  [(Composite (QRCodeBuffer u 600 1 ''#000000'' ''#ffffff'')
                      [(LogoBuffer w h, (600 - w) div 2, (600 - h) div 2)],
                    frame_left W 500, frame_top H),
                   (t, 0, text_top H)]
         \<and> frame_left W 500 = frame_left W 600 + 50"
    by (simp only: if_True) blast
  from h a fe b g show ?thesis
    by (simp only:) blast
qed

text \<open>
  The vertical offsets are computed in double arithmetic: \<^verbatim>\<open>90 * 0.35\<close> is
  \<^verbatim>\<open>31.499999999999996\<close>, so on a frame 90 pixels high the text layer is at top 31,
  where the exact product 31.5 would round to 32.
\<close>

lemma text_top_double: "text_top 90 = 31 \<and> frame_top 90 = 41"
  by code_simp

text \<open>
  C8. The claim places a QR bitmap of size \<open>qrSize\<close> on a frame of width \<open>W\<close> at
  left \<open>round ((W - qrSize) / 2)\<close>. The handler takes the offset from the parsed
  \<^verbatim>\<open>size\<close> parameter, which in frame mode is the default 500, while the bitmap is 600
  wide. For the request \<^verbatim>\<open>/qrcode?name=Jean Dupont\<close> and a 1000 by 1000 frame the 600 pixel
  bitmap is painted at left 250; the claim's formula gives 200. The rest is as claimed:
  top 450 for the bitmap, then the text layer, 1000 by 120, at left 0 and top 350.
\<close>

theorem frame_offset_ignores_bitmap_width:
  "qrcode production small_directory square_logo (empty_request\<lparr>q_name := Some ''Jean Dupont''\<rparr>)
     = (Png (Composite (FrameFile 1000 1000)
               [(Composite
                   (QRCodeBuffer ''https://links.joel-officiel.fr:3000?name=Jean%2520Dupont''
                      600 1 ''#000000'' ''#ffffff'') [(LogoBuffer 270 270, 165, 165)],
                 250, 450),
                (TextSvg 1000 120 False ''Jean Dupont'', 0, 350)]),
        [SearchPeople ''Jean Dupont'', Umami ''/qr-people''])
   \<and> frame_left 1000 600 = 200"
  by code_simp


text \<open>
  A logo three times as tall as wide is resized to 270 by 810 for the default options;
  \<^verbatim>\<open>composite\<close> refuses it on the 600 pixel bitmap, and no image is answered.
\<close>

lemma tall_logo_refused:
  "generateQrWithLogo
     (square_logo\<lparr>logo_resize :=
        (\<lambda>rq. case rq_width rq of None \<Rightarrow> None | Some w \<Rightarrow> Some (w, 3 * w))\<rparr>)
     ''u'' default_options = None"
  by code_simp



section \<open>Properties of the landing page handler\<close>

lemma landing_init_fields:
  "followType landing_init = None" "followArg landing_init = None"
  "followLabel landing_init = None" "qr_url landing_init = None" "trace landing_init = []"
  by (simp_all add: landing_init_def)








text \<open>A name with no space character is rejected before any directory call.\<close>

lemma landing_name_without_space:
  assumes "q_name req = Some n" "CHR '' '' \<notin> set n"
  shows "landing_with up cfg dir req = (InvalidPersonName, [])"
  using assms
  by (simp add: landing_with_def landing_name_def split_space_short landing_init_def)

lemma qrcode_name_without_space:
  assumes "q_name req = Some n" "n \<noteq> []" "CHR '' '' \<notin> set n"
    "\<not> (q_size req \<noteq> None \<and> frameEnabled req)"
  shows "qrcode cfg dir lib req = (InvalidPersonName, [])"
  using assms
  by (auto simp: qrcode_def qrcode_followType_def param_def split_space_short Let_def)

text \<open>
  C2. The claim rejects every name with fewer than two white-space separated tokens
  before any directory call. The handlers count the pieces between single spaces, empty
  pieces included, so the one-word name \<^verbatim>\<open>"Jean "\<close> (a trailing space) passes: with
  verification both handlers call the directory with it, and without verification the
  image handler renders a QR code for it.
\<close>

theorem name_with_trailing_space:
  "length (whitespace_tokens ''Jean '') = 1
   \<and> length (split_space ''Jean '') = 2
   \<and> landing production empty_directory (empty_request\<lparr>q_name := Some ''Jean ''\<rparr>)
       = (PersonNotFound ''Jean '', [SearchPeople ''Jean ''])
   \<and> qrcode production empty_directory square_logo
         (empty_request\<lparr>q_name := Some ''Jean '', q_frame := Some ''false''\<rparr>)
       = (PersonNotFound ''Jean '', [SearchPeople ''Jean ''])
   \<and> qrcode production empty_directory square_logo
         (empty_request\<lparr>q_name := Some ''Jean '', q_verify := Some [],
                         q_frame := Some ''false''\<rparr>)
       = (Png (Composite (QRCodeBuffer ''https://links.joel-officiel.fr:3000?name=Jean%2520''
                            600 1 ''#000000'' ''#ffffff'') [(LogoBuffer 270 270, 165, 165)]), [])"
  by code_simp

text \<open>
  C3. The claim has \<^verbatim>\<open>verify=false\<close> skip the directory lookup and the landing page
  render for \<^verbatim>\<open>name=Jean Dupont\<close>. The handler reads the flag with \<^verbatim>\<open>Boolean\<close>, which
  is true of the string \<^verbatim>\<open>"false"\<close>: the lookup is made, and a directory with no match
  gives \<open>PersonNotFound\<close>. Only an empty \<^verbatim>\<open>verify\<close> skips the lookup; the QR URL is then
  unset, so the production server redirects to its own base URL instead of rendering, and
  the development server renders the page with the label \<^verbatim>\<open>Sample label\<close> (its link does
  end with the command \<^verbatim>\<open>Rechercher Jean Dupont\<close>, percent-encoded).
\<close>

theorem verify_false_still_verifies:
  "verifyOnJORFSearch (empty_request\<lparr>q_name := Some ''Jean Dupont'', q_verify := Some ''false''\<rparr>)
   \<and> landing production empty_directory
         (empty_request\<lparr>q_name := Some ''Jean Dupont'', q_verify := Some ''false''\<rparr>)
       = (PersonNotFound ''Jean Dupont'', [SearchPeople ''Jean Dupont''])
   \<and> \<not> verifyOnJORFSearch (empty_request\<lparr>q_name := Some ''Jean Dupont'', q_verify := Some []\<rparr>)
   \<and> landing production small_directory
         (empty_request\<lparr>q_name := Some ''Jean Dupont'', q_verify := Some []\<rparr>)
       = (Redirect ''https://links.joel-officiel.fr'', [])
   \<and> landing development small_directory
         (empty_request\<lparr>q_name := Some ''Jean Dupont'', q_verify := Some []\<rparr>)
       = (Html \<lparr>qrcode_src = None, follow_label = ''Sample label'',
                 base_url = ''http://localhost:3000'', title_name = Some ''Jean Dupont'',
                 whatsapp_block = False, telegram_block = True, matrix_block = False,
                 tchap_block = False, whatsapp_link = None,
                 telegram_link =
                   Some ''https://t.me/JOEL_bot?text=Bonjour%20JOEL!%20Rechercher%20Jean%20Dupont'',
                 matrix_link = None, tchap_link = None\<rparr>,
          [Umami ''/link-people''])"
  by code_simp

text \<open>
  C4. The claim lets an organisation through without verification only when its
  identifier starts with \<^verbatim>\<open>Q\<close>, and answers \<open>VerificationRequired\<close> otherwise. The landing
  handler's guard is the opposite one: without verification \<^verbatim>\<open>x1\<close> passes the guard (the
  request then fails for want of a label, and the second server file renders a page for
  it), while \<^verbatim>\<open>q12345\<close> is answered \<open>VerificationRequired\<close>. The image handler has the
  claim's guard but always verifies organisations, and it queries the directory with the
  identifier as given, not in upper case.
\<close>

theorem organisation_guard_inverted:
  "\<not> startsWith (toUpperCase ''x1'') ''Q''
   \<and> landing production small_directory
         (empty_request\<lparr>q_organisation_id := Some ''x1'', q_verify := Some []\<rparr>)
       = (FollowLabelNotFound, [])
   \<and> startsWith (toUpperCase ''q12345'') ''Q''
   \<and> landing production small_directory
         (empty_request\<lparr>q_organisation_id := Some ''q12345'', q_verify := Some []\<rparr>)
       = (VerificationRequired, [])
   \<and> (case landing_choose production small_directory
              (empty_request\<lparr>q_organisation_id := Some ''x1'', q_verify := Some []\<rparr>) of
         Inr (p, tr) \<Rightarrow> c_follow_name p = Some ''X1'' \<and> tr = [Umami ''/link-organisation'']
       | Inl r \<Rightarrow> False)
   \<and> snd (qrcode production small_directory square_logo
              (empty_request\<lparr>q_organisation_id := Some ''q12345'', q_verify := Some [],
                              q_frame := Some ''false''\<rparr>))
       = [SearchOrganisation ''q12345'']"
  by code_simp

text \<open>
  A verified organisation on the landing page, with no name in the request: no match is
  \<open>OrganisationNotFound\<close>, several matches are \<open>AmbiguousDirectoryMatch\<close>, and a single
  match gives the page its label and the identifier of its command.
\<close>

lemma landing_organisation_lookup:
  assumes "q_name req = None" "q_organisation_id req = Some i" "verifyOnJORFSearch req"
    "callJORFSearchOrganisationByWikidataId dir (up i) = Some ms"
  shows "landing_organisation up cfg dir req landing_init =
           (if ms = [] then Inl (OrganisationNotFound (up i), [SearchOrganisation (up i)])
            else if 1 < length ms
            then Inl (AmbiguousDirectoryMatch, [SearchOrganisation (up i)])
            else Inr \<lparr>followType = Some organisation, followArg = Some (org_id (hd ms)),
                      followLabel = Some (org_name (hd ms)),
                      qr_url = Some (APP_URL_WITH_PORT_QR cfg @ ''?organisation=''
                                     @ org_id (hd ms)),
                      trace = [SearchOrganisation (up i)]\<rparr>)"
  using assms
  by (simp add: landing_organisation_def landing_init_def Let_def)

lemma landing_organisation_verified:
  assumes "q_name req = None" "q_organisation_id req = Some i" "verifyOnJORFSearch req"
    "callJORFSearchOrganisationByWikidataId dir (up i) = Some ms"
  shows "(ms = [] \<longrightarrow> landing_with up cfg dir req = (OrganisationNotFound (up i),
                                                    [SearchOrganisation (up i)]))
       \<and> (1 < length ms \<longrightarrow> landing_with up cfg dir req = (AmbiguousDirectoryMatch,
                                                           [SearchOrganisation (up i)]))
       \<and> (length ms = 1 \<and> q_function_tag req = None \<longrightarrow>
            (\<exists>p. landing_with up cfg dir req =
                   (Html p, [SearchOrganisation (up i), Umami ''/link-organisation''])
                 \<and> follow_label p = org_name (hd ms)
                 \<and> telegram_link p = messenger_link (telegramLinkBase cfg)
                      (smoothFlowCommand (''SuivreO '' @ org_id (hd ms)))
                 \<and> whatsapp_link p = messenger_link (whatsappLinkBase cfg)
                      (smoothFlowCommand (''SuivreO '' @ org_id (hd ms)))))"
proof -
  have n: "landing_name cfg dir req landing_init = Inr landing_init"
    using assms(1) by (simp add: landing_name_def)
  note o = landing_organisation_lookup[where up = up and i = i, OF assms, of cfg]
  show ?thesis
    by (auto simp: landing_with_def n o landing_function_tag_def landing_render_def truthy_def
        start_command_def link_event_def Let_def)
qed

text \<open>
  C5. The claim takes the canonical identifier and the label of a verified organisation
  from the single directory match. The landing handler does (lemma
  \<open>landing_organisation_verified\<close>), and both handlers answer \<open>OrganisationNotFound\<close>
  for no match and \<open>AmbiguousDirectoryMatch\<close> for several. The image handler takes only
  the label from the match: for \<^verbatim>\<open>organisation_id=q12345\<close> and the single match
  \<^verbatim>\<open>{id: "Q12345", name: "Acme Org"}\<close> the encoded URL carries the request's
  \<^verbatim>\<open>q12345\<close>.
\<close>

theorem qrcode_organisation_url_keeps_request_id:
  "callJORFSearchOrganisationByWikidataId small_directory ''q12345''
     = Some [\<lparr>org_id = ''Q12345'', org_name = ''Acme Org''\<rparr>]
   \<and> qrcode production small_directory square_logo
         (empty_request\<lparr>q_organisation_id := Some ''q12345'', q_frame := Some ''false''\<rparr>)
       = (Png (Composite
                 (QRCodeBuffer ''https://links.joel-officiel.fr:3000?&organisation=q12345''
                    600 1 ''#000000'' ''#ffffff'') [(LogoBuffer 270 270, 165, 165)]),
          [SearchOrganisation ''q12345''])
   \<and> (case fst (landing production small_directory
                   (empty_request\<lparr>q_organisation_id := Some ''q12345''\<rparr>)) of
         Html p \<Rightarrow> title_name p = Some ''Q12345'' \<and> follow_label p = ''Acme Org''
       | _ \<Rightarrow> False)"
  by code_simp

text \<open>
  With no parameter at all the landing handler makes no directory call. On the development
  server it goes on with sample values and reaches the default case of its \<^verbatim>\<open>switch\<close>,
  the redirect to the marketing site; on the production server the test of the QR URL
  answers first, with a redirect to the application's own base URL. The landing handler of
  the second server file answers status 400 at that test.
\<close>

lemma landing_without_parameters:
  assumes "q_name req = None" "q_organisation_id req = None" "q_function_tag req = None"
  shows "landing_with up cfg dir req =
           (if isDev cfg then (Redirect ''https://joel-officiel.fr'', [Umami ''/link-default''])
            else (Redirect ''https://links.joel-officiel.fr'', []))"
    and "landing_choose_with up cfg dir req = Inl (QrUrlNotInitialized, [])"
  using assms
  by (simp_all add: landing_with_def landing_choose_with_def landing_name_def
      landing_organisation_def landing_function_tag_def choose_function_tag_def
      choose_render_def landing_render_def landing_init_def truthy_def APP_URL_def
      APP_DOMAIN_def HOME_WEBSITE_URL_def encodeURI_app_url encodeURI_home)

text \<open>
  C6. The claim answers every request in which no target resolves with the redirect to
  the fixed marketing URL \<^verbatim>\<open>https://joel-officiel.fr\<close>, never with an error body. The
  request with no parameter is answered in three ways: the production server redirects to
  the application's own base URL \<^verbatim>\<open>https://links.joel-officiel.fr\<close>, before the handler
  reaches its own default case with the marketing redirect; the development server does
  reach it; and the second server file answers status 400, \<^verbatim>\<open>qr_url not initialized\<close>.
  An empty parameter, which the specification and the image handler count as absent, is
  taken as a target: \<^verbatim>\<open>/?name=\<close> is answered \<open>InvalidPersonName\<close>, and
  \<^verbatim>\<open>/?organisation_id=\<close> and \<^verbatim>\<open>/?function_tag=\<close> call the directory with the empty
  string and answer its error, where the image handler resolves no target for the same
  parameters.
\<close>

theorem landing_no_target_diverges:
  "landing production small_directory empty_request
     = (Redirect ''https://links.joel-officiel.fr'', [])
   \<and> encodeURI (''https://'' @ HOME_WEBSITE_URL) = ''https://joel-officiel.fr''
   \<and> landing development small_directory empty_request
       = (Redirect ''https://joel-officiel.fr'', [Umami ''/link-default''])
   \<and> landing_choose production small_directory empty_request
       = Inl (Json 400 ''qr_url not initialized'', [])
   \<and> landing production small_directory (empty_request\<lparr>q_name := Some []\<rparr>)
       = (InvalidPersonName, [])
   \<and> landing production small_directory (empty_request\<lparr>q_organisation_id := Some []\<rparr>)
       = (OrganisationNotFound [], [SearchOrganisation []])
   \<and> landing production small_directory (empty_request\<lparr>q_function_tag := Some []\<rparr>)
       = (TagNotFound, [SearchTag []])
   \<and> qrcode production small_directory square_logo
         (empty_request\<lparr>q_name := Some [], q_organisation_id := Some [],
                         q_function_tag := Some [], q_frame := Some ''false''\<rparr>)
       = (QrUrlNotInitialized, [])"
  by code_simp

text \<open>A request with a tag alone is never answered with the landing page.\<close>

lemma landing_tag_never_rendered:
  assumes "q_name req = None" "q_organisation_id req = None" "q_function_tag req = Some t"
  shows "is_error (fst (landing_with up cfg dir req))"
proof -
  have n: "landing_name cfg dir req landing_init = Inr landing_init"
    using assms(1) by (simp add: landing_name_def)
  have o: "landing_organisation up cfg dir req landing_init = Inr landing_init"
    using assms(2) by (simp add: landing_organisation_def)
  show ?thesis
    using assms(3)
    by (auto simp: landing_with_def n o landing_function_tag_def landing_render_def truthy_def
        landing_init_fields error_defs APP_URL_WITH_PORT_QR_def APP_URL_WITH_PORT_def
        APP_URL_def split: option.splits)
qed

text \<open>
  C7. The claim gives every resolved target a landing page whose command is
  \<^verbatim>\<open>Rechercher\<close>, \<^verbatim>\<open>SuivreO\<close> or \<^verbatim>\<open>SuivreF\<close> followed by the argument. A tag never gets
  one: the handler sets no label for a tag and answers \<open>FollowLabelNotFound\<close> before the
  command is built (the image handler and the second server file do serve tags). The
  organisation example holds: \<^verbatim>\<open>organisation_id=q12345\<close> with the single match
  \<^verbatim>\<open>{id: "Q12345", name: "Acme Org"}\<close> gives the label \<^verbatim>\<open>Acme Org\<close> and the command
  \<^verbatim>\<open>SuivreO Q12345\<close>, whose messenger link carries \<^verbatim>\<open>RechercherO Q12345\<close>.
\<close>

theorem tag_landing_page_not_rendered:
  "callJORFSearchTag small_directory ''ministre'' = Some [''ministre'']
   \<and> landing production small_directory (empty_request\<lparr>q_function_tag := Some ''ministre''\<rparr>)
       = (FollowLabelNotFound, [SearchTag ''ministre''])
   \<and> (case landing_choose production small_directory
              (empty_request\<lparr>q_function_tag := Some ''ministre''\<rparr>) of
         Inr (p, tr) \<Rightarrow>
           c_telegram_link p
             = Some ''https://t.me/JOEL_bot?text=Bonjour%20JOEL!%20RechercherF%20ministre''
       | Inl r \<Rightarrow> False)
   \<and> start_command organisation ''Q12345'' = ''SuivreO Q12345''
   \<and> smoothFlowCommand ''SuivreO Q12345'' = ''RechercherO Q12345''
   \<and> landing production small_directory (empty_request\<lparr>q_organisation_id := Some ''q12345''\<rparr>)
       = (Html \<lparr>qrcode_src = None, follow_label = ''Acme Org'',
                 base_url = ''https://links.joel-officiel.fr:3000'', title_name = Some ''Q12345'',
                 whatsapp_block = False, telegram_block = True, matrix_block = False,
                 tchap_block = False, whatsapp_link = None,
                 telegram_link =
                   Some ''https://t.me/JOEL_bot?text=Bonjour%20JOEL!%20RechercherO%20Q12345'',
                 matrix_link = None, tchap_link = None\<rparr>,
          [SearchOrganisation ''Q12345'', Umami ''/link-organisation''])"
  by code_simp

end
